theory Spec2Isabelle
  imports Main "HOL-Library.AList"
begin

section \<open>Data model of the onboarding form (src/src/App.tsx)\<close>

text \<open>
  JavaScript strings are modelled as \<open>string\<close> (lists of 8-bit characters), so the
  model covers the Latin-1 range of UTF-16 code units. Objects used as dictionaries
  (\<open>FormErrors\<close>) are association lists in insertion order, as \<open>Object.keys\<close> sees them.
\<close>

record FormData =
  firstName :: string
  lastName :: string
  dateOfBirth :: string
  gender :: string
  email :: string
  phone :: string
  address :: string
  grade :: string
  previousSchool :: string
  parentName :: string
  parentEmail :: string
  parentPhone :: string
  relationship :: string
  subjects :: "string list"
  hobbies :: string
  goals :: string
  password :: string
  course :: string

type_synonym FormErrors = "(string \<times> string) list"

record PaymentData =
  razorpay_order_id :: string
  razorpay_payment_id :: string
  razorpay_signature :: string

type_synonym RazorpayResponse = PaymentData

record PaymentVerificationResult =
  success :: bool
  message :: string
  orderId :: "string option"
  paymentId :: "string option"

record RazorpayOrder =
  ord_id :: string
  ord_amount :: int
  ord_currency :: string
  ord_receipt :: "string option"

record RazorpayOptions =
  opt_key :: string
  opt_amount :: int
  opt_currency :: string
  opt_name :: string
  opt_description :: string
  opt_order_id :: string
  prefill_name :: string
  prefill_email :: string
  prefill_contact :: string
  theme_color :: string

text \<open>The body that \<open>createOrder\<close> serialises; \<open>None\<close> is JavaScript's \<open>undefined\<close>,
  which \<open>JSON.stringify\<close> leaves out of the object.\<close>

record OrderBody =
  body_amount :: "int option"
  body_currency :: string
  body_receipt :: string
  notes_customer_name :: string
  notes_customer_email :: string

text \<open>The JSON the order endpoint answers with.\<close>

record OrderReply =
  reply_success :: bool
  reply_order :: RazorpayOrder
  reply_message :: "string option"

text \<open>What \<open>handleFormSubmit\<close> returns when it returns an object.\<close>

record SubmitResponse =
  status :: bool
  statusCode :: "int option"

text \<open>The calendar fields the code reads from a \<open>Date\<close>: \<open>getFullYear()\<close>,
  \<open>getMonth()\<close> (0 to 11) and \<open>getDate()\<close>.\<close>

record JsDate =
  fullYear :: int
  month :: int
  date :: int

text \<open>The outcome of \<open>await fetch(...)\<close> followed by \<open>await response.json()\<close>.\<close>

datatype 'a fetched = Threw string | Json 'a

text \<open>The outcome of \<open>await axios.post(...)\<close>: fulfilled with a response status, rejected
  with an \<open>AxiosError\<close> (whose \<open>response?.status\<close> may be undefined), rejected with
  another \<open>Error\<close> (its message), or rejected with any other value (its \<open>String\<close>).\<close>

datatype axios_result =
    Fulfilled int
  | RejectedAxios "int option"
  | RejectedError string
  | RejectedOther string

text \<open>Everything outside the program that one run of the code observes.\<close>

record Env =
  today :: JsDate
  newDate :: "string \<Rightarrow> JsDate option"
  randomIndex :: "nat \<Rightarrow> nat"
  dateNow :: nat
  keyResponse :: "string option fetched"
  scriptLoaded :: bool
  orderResponse :: "OrderReply fetched"
  verifyResponse :: "PaymentVerificationResult option fetched"
  commitResponse :: axios_result

text \<open>Observable calls, in program order. A \<open>console.log\<close> or \<open>console.error\<close> is
  recorded with its text, or with the name of the variable when an object is logged.\<close>

datatype event =
    ConsoleLog string
  | ConsoleError string
  | Alert string
  | GetKeyCall
  | ScriptLoadCall
  | MakePaymentCall OrderBody
  | WidgetOpenCall RazorpayOptions
  | VerifyPaymentsCall PaymentData
  | CreateStudentUserCall FormData

text \<open>The component state that the submission protocol reads and writes. The clipboard
  and dropdown flags (\<open>copiedEmail\<close>, \<open>copiedPassword\<close>, \<open>openSelect\<close>) are left out:
  no code of the protocol touches them.\<close>

record AppState =
  currentStep :: nat
  showSuccessModal :: bool
  generatedPassword :: string
  onLoad :: bool
  errors :: FormErrors
  touched :: "(string \<times> bool) list"
  paymentCompleted :: bool
  formData :: FormData

section \<open>Regular expressions of the field validators\<close>

datatype cclass = OneOf "char list" | NoneOf "char list"

datatype regex =
    Nul
  | Eps
  | Cls cclass
  | Cat regex regex
  | Alt regex regex
  | Star regex

fun in_class :: "cclass \<Rightarrow> char \<Rightarrow> bool" where
  "in_class (OneOf cs) c = (c \<in> set cs)"
| "in_class (NoneOf cs) c = (c \<notin> set cs)"

fun nullable :: "regex \<Rightarrow> bool" where
  "nullable Nul = False"
| "nullable Eps = True"
| "nullable (Cls k) = False"
| "nullable (Cat r s) = (nullable r \<and> nullable s)"
| "nullable (Alt r s) = (nullable r \<or> nullable s)"
| "nullable (Star r) = True"

fun deriv :: "char \<Rightarrow> regex \<Rightarrow> regex" where
  "deriv c Nul = Nul"
| "deriv c Eps = Nul"
| "deriv c (Cls k) = (if in_class k c then Eps else Nul)"
| "deriv c (Cat r s) =
     (if nullable r then Alt (Cat (deriv c r) s) (deriv c s) else Cat (deriv c r) s)"
| "deriv c (Alt r s) = Alt (deriv c r) (deriv c s)"
| "deriv c (Star r) = Cat (deriv c r) (Star r)"

text \<open>\<open>re.test(s)\<close> for a pattern anchored with \<open>^\<close> and \<open>$\<close>: the whole string matches.\<close>

fun test :: "regex \<Rightarrow> string \<Rightarrow> bool" where
  "test r [] = nullable r"
| "test r (c # cs) = test (deriv c r) cs"

definition plus :: "regex \<Rightarrow> regex" where
  "plus r = Cat r (Star r)"

definition opt :: "regex \<Rightarrow> regex" where
  "opt r = Alt r Eps"

fun upto_times :: "nat \<Rightarrow> regex \<Rightarrow> regex" where
  "upto_times 0 r = Eps"
| "upto_times (Suc n) r = opt (Cat r (upto_times n r))"

text \<open>The quantifier \<open>{m,n}\<close>.\<close>

fun between :: "nat \<Rightarrow> nat \<Rightarrow> regex \<Rightarrow> regex" where
  "between 0 n r = upto_times n r"
| "between (Suc m) n r = Cat r (between m (n - 1) r)"

text \<open>\<open>\s\<close> within Latin-1: tab, line feed, vertical tab, form feed, carriage return,
  space and no-break space. \<open>String.prototype.trim\<close> strips the same characters.\<close>

definition js_space :: "char list" where
  "js_space = [CHR 0x09, CHR 0x0A, CHR 0x0B, CHR 0x0C, CHR 0x0D, CHR 0x20, CHR 0xA0]"

definition digits :: "char list" where
  "digits = ''0123456789''"

definition trim :: "string \<Rightarrow> string" where
  "trim s = rev (dropWhile (\<lambda>c. c \<in> set js_space) (rev (dropWhile (\<lambda>c. c \<in> set js_space) s)))"

text \<open>\<open>/^[^\s@]+@[^\s@]+\.[^\s@]+$/\<close>\<close>

definition email_re :: regex where
  "email_re =
     Cat (plus (Cls (NoneOf (js_space @ ''@''))))
    (Cat (Cls (OneOf ''@''))
    (Cat (plus (Cls (NoneOf (js_space @ ''@''))))
    (Cat (Cls (OneOf ''.''))
         (plus (Cls (NoneOf (js_space @ ''@'')))))))"

text \<open>\<open>/^[+]?[(]?[0-9]{1,4}[)]?[-\s.]?[0-9]{1,4}[-\s.]?[0-9]{1,9}$/\<close>\<close>

definition phone_re :: regex where
  "phone_re =
     Cat (opt (Cls (OneOf ''+'')))
    (Cat (opt (Cls (OneOf ''('')))
    (Cat (between 1 4 (Cls (OneOf digits)))
    (Cat (opt (Cls (OneOf '')'')))
    (Cat (opt (Cls (OneOf (''-'' @ js_space @ ''.''))))
    (Cat (between 1 4 (Cls (OneOf digits)))
    (Cat (opt (Cls (OneOf (''-'' @ js_space @ ''.''))))
         (between 1 9 (Cls (OneOf digits)))))))))"

section \<open>Field validators\<close>

definition validateEmail :: "string \<Rightarrow> bool" where
  "validateEmail e = test email_re e"

definition validatePhone :: "string \<Rightarrow> bool" where
  "validatePhone p = test phone_re p"

text \<open>Lines 124 to 129: the difference of the years, less one when the birthday has not
  been reached in the current year.\<close>

definition age_on :: "JsDate \<Rightarrow> JsDate \<Rightarrow> int" where
  "age_on now birthDate =
     (let age = fullYear now - fullYear birthDate;
          monthDiff = month now - month birthDate
      in if monthDiff < 0 \<or> (monthDiff = 0 \<and> date now < date birthDate)
         then age - 1 else age)"

text \<open>An Invalid Date has \<open>NaN\<close> fields, every comparison with \<open>NaN\<close> is false.\<close>

definition validateDateOfBirth :: "Env \<Rightarrow> string \<Rightarrow> bool" where
  "validateDateOfBirth env dob =
     (case newDate env dob of
        None \<Rightarrow> False
      | Some birthDate \<Rightarrow> (let age = age_on (today env) birthDate in age \<ge> 5 \<and> age \<le> 25))"

section \<open>Step validator\<close>

definition steps :: "string list" where
  "steps = [''Personal Info'', ''Contact Details'', ''Academic Info'', ''Parent/Guardian'',
            ''Interests & Goals'', ''Payments'']"

text \<open>Assignment \<open>newErrors.k = v\<close> under a condition.\<close>

definition assign_if :: "bool \<Rightarrow> string \<Rightarrow> string \<Rightarrow> FormErrors \<Rightarrow> FormErrors" where
  "assign_if b k v e = (if b then AList.update k v e else e)"

definition newErrors :: "Env \<Rightarrow> FormData \<Rightarrow> nat \<Rightarrow> FormErrors" where
  "newErrors env fd step =
     (if step = 0 then
        (let e = [];
             e = assign_if (trim (firstName fd) = []) ''firstName'' ''First name is required'' e;
             e = assign_if (trim (lastName fd) = []) ''lastName'' ''Last name is required'' e;
             e = (if dateOfBirth fd = []
                  then AList.update ''dateOfBirth'' ''Date of birth is required'' e
                  else assign_if (\<not> validateDateOfBirth env (dateOfBirth fd)) ''dateOfBirth''
                         ''Please enter a valid date of birth (age 5-25)'' e)
         in e)
      else if step = 1 then
        (let e = [];
             e = (if email fd = []
                  then AList.update ''email'' ''Email is required'' e
                  else assign_if (\<not> validateEmail (email fd)) ''email''
                         ''Please enter a valid email address'' e);
             e = assign_if (phone fd \<noteq> [] \<and> \<not> validatePhone (phone fd)) ''phone''
                   ''Please enter a valid phone number'' e
         in e)
      else if step = 2 then
        assign_if (grade fd = []) ''grade'' ''Grade is required'' []
      else if step = 3 then
        (let e = [];
             e = assign_if (trim (parentName fd) = []) ''parentName''
                   ''Parent/Guardian name is required'' e;
             e = (if parentEmail fd = []
                  then AList.update ''parentEmail'' ''Parent email is required'' e
                  else assign_if (\<not> validateEmail (parentEmail fd)) ''parentEmail''
                         ''Please enter a valid email address'' e);
             e = (if parentPhone fd = []
                  then AList.update ''parentPhone'' ''Parent phone number is required'' e
                  else assign_if (\<not> validatePhone (parentPhone fd)) ''parentPhone''
                         ''Please enter a valid phone number'' e)
         in e)
      else [])"

text \<open>\<open>validateStep\<close>: \<open>setErrors(newErrors)\<close>, then whether \<open>Object.keys(newErrors)\<close>
  is empty.\<close>

definition validateStep :: "Env \<Rightarrow> AppState \<Rightarrow> nat \<Rightarrow> AppState \<times> bool" where
  "validateStep env s step =
     (let e = newErrors env (formData s) step
      in (s\<lparr>errors := e\<rparr>, length (map fst e) = 0))"

section \<open>Credential generator\<close>

definition chars :: string where
  "chars = ''ABCDEFGHIJKLMNOPQRSTUVWXYZabcdefghijklmnopqrstuvwxyz0123456789!@#$%^&*''"

text \<open>\<open>String.prototype.charAt\<close>: the empty string outside the range.\<close>

definition charAt :: "string \<Rightarrow> nat \<Rightarrow> string" where
  "charAt str i = (if i < length str then [str ! i] else [])"

definition generatePassword :: "Env \<Rightarrow> string" where
  "generatePassword env = concat (map (\<lambda>i. charAt chars (randomIndex env i)) [0..<12])"

section \<open>Payment gateway client (HandlePayments)\<close>

fun show_nat :: "nat \<Rightarrow> string" where
  "show_nat n =
     (if n < 10 then [digits ! n] else show_nat (n div 10) @ [digits ! (n mod 10)])"

declare show_nat.simps [simp del]

definition fetchRazorpayKey :: "Env \<Rightarrow> string option \<times> event list" where
  "fetchRazorpayKey env =
     (case keyResponse env of
        Json k \<Rightarrow> (k, [GetKeyCall])
      | Threw e \<Rightarrow> (None, [GetKeyCall, ConsoleError ''Error fetching Razorpay key:'']))"

definition loadRazorpayScript :: "Env \<Rightarrow> bool \<times> event list" where
  "loadRazorpayScript env = (scriptLoaded env, [ScriptLoadCall])"

definition order_body :: "Env \<Rightarrow> int option \<Rightarrow> OrderBody" where
  "order_body env amount =
     \<lparr>body_amount = amount,
      body_currency = ''INR'',
      body_receipt = ''receipt_'' @ show_nat (dateNow env),
      notes_customer_name = ''chiranjeevi'',
      notes_customer_email = ''test@b2p.com''\<rparr>"

text \<open>\<open>data.message || 'Failed to create order'\<close>\<close>

definition message_or_default :: "string option \<Rightarrow> string" where
  "message_or_default m =
     (case m of
        None \<Rightarrow> ''Failed to create order''
      | Some t \<Rightarrow> if t \<noteq> [] then t else ''Failed to create order'')"

text \<open>\<open>createOrder\<close> returns the order or throws (\<open>Inl\<close>, the error's message) after
  logging the error.\<close>

definition createOrder :: "Env \<Rightarrow> int option \<Rightarrow> (string + RazorpayOrder) \<times> event list" where
  "createOrder env amount =
     (case orderResponse env of
        Threw e \<Rightarrow>
          (Inl e, [MakePaymentCall (order_body env amount), ConsoleError ''Create order error:''])
      | Json data \<Rightarrow>
          if reply_success data
          then (Inr (reply_order data), [MakePaymentCall (order_body env amount)])
          else (Inl (message_or_default (reply_message data)),
                [MakePaymentCall (order_body env amount), ConsoleError ''Create order error:'']))"

text \<open>\<open>verifyPayment\<close> returns the parsed JSON as it is (\<open>None\<close>: a falsy value such as
  \<open>null\<close>) or rethrows.\<close>

definition verifyPayment ::
  "Env \<Rightarrow> PaymentData \<Rightarrow> (string + PaymentVerificationResult option) \<times> event list" where
  "verifyPayment env paymentData =
     (case verifyResponse env of
        Threw e \<Rightarrow> (Inl e, [VerifyPaymentsCall paymentData, ConsoleError ''Verify payment error:''])
      | Json data \<Rightarrow> (Inr data, [VerifyPaymentsCall paymentData]))"

section \<open>Submission committer (src/src/apis/handleFormSubmit.ts)\<close>

text \<open>The result is \<open>None\<close> where the function ends without a \<open>return\<close>
  (\<open>undefined\<close>).\<close>

definition handleFormSubmit :: "Env \<Rightarrow> FormData \<Rightarrow> SubmitResponse option \<times> event list" where
  "handleFormSubmit env datas =
     (case commitResponse env of
        Fulfilled sc \<Rightarrow>
          (Some \<lparr>status = True, statusCode = Some sc\<rparr>, [CreateStudentUserCall datas])
      | RejectedAxios sc \<Rightarrow>
          (Some \<lparr>status = False, statusCode = sc\<rparr>, [CreateStudentUserCall datas])
      | RejectedError m \<Rightarrow> (None, [CreateStudentUserCall datas, Alert m])
      | RejectedOther m \<Rightarrow> (None, [CreateStudentUserCall datas, Alert m]))"

text \<open>\<open>response?.status\<close> as a condition, and \<open>response?.statusCode\<close>.\<close>

definition resp_status :: "SubmitResponse option \<Rightarrow> bool" where
  "resp_status r = (case r of None \<Rightarrow> False | Some x \<Rightarrow> status x)"

definition resp_statusCode :: "SubmitResponse option \<Rightarrow> int option" where
  "resp_statusCode r = (case r of None \<Rightarrow> None | Some x \<Rightarrow> statusCode x)"

section \<open>Orchestrator: \<open>handleSubmit\<close> and the widget's two handlers\<close>

text \<open>A string or \<open>undefined\<close> as a condition.\<close>

definition truthy :: "string option \<Rightarrow> bool" where
  "truthy k = (case k of None \<Rightarrow> False | Some v \<Rightarrow> v \<noteq> [])"

text \<open>The loop of lines 268 to 274.\<close>

function validateAll :: "Env \<Rightarrow> AppState \<Rightarrow> nat \<Rightarrow> AppState \<times> bool" where
  "validateAll env s i =
     (if i < length steps then
        (if \<not> snd (validateStep env s i)
         then ((fst (validateStep env s i))\<lparr>currentStep := i\<rparr>, False)
         else validateAll env (fst (validateStep env s i)) (i + 1))
      else (s, True))"
  by pat_completeness auto
termination
  by (relation "measure (\<lambda>(env, s, i). length steps - i)") auto

declare validateAll.simps [simp del]

definition razorpay_options :: "string \<Rightarrow> RazorpayOrder \<Rightarrow> RazorpayOptions" where
  "razorpay_options razorPayKey order =
     \<lparr>opt_key = razorPayKey,
      opt_amount = ord_amount order,
      opt_currency = ord_currency order,
      opt_name = ''B2P TEACHERS'',
      opt_description = ''100 Days Payment Plan'',
      opt_order_id = ord_id order,
      prefill_name = ''chiranjeevi'',
      prefill_email = ''test@b2p.com'',
      prefill_contact = ''1234566778909'',
      theme_color = ''#3b82f6''\<rparr>"

text \<open>The completion handler of the widget (lines 305 to 330), a closure over
  \<open>finalData\<close>. The third component is \<open>Some e\<close> when the handler's promise rejects.\<close>

definition handler ::
  "FormData \<Rightarrow> Env \<Rightarrow> RazorpayResponse \<Rightarrow> AppState \<Rightarrow> AppState \<times> event list \<times> string option" where
  "handler finalData env response s =
     (case verifyPayment env
             \<lparr>razorpay_order_id = razorpay_order_id response,
              razorpay_payment_id = razorpay_payment_id response,
              razorpay_signature = razorpay_signature response\<rparr> of
        (Inl e, ev) \<Rightarrow> (s, ev, Some e)
      | (Inr verificationResult, ev) \<Rightarrow>
          if verificationResult \<noteq> None then
            (let s = s\<lparr>paymentCompleted := True\<rparr>;
                 submitResponse = fst (handleFormSubmit env finalData);
                 ev2 = snd (handleFormSubmit env finalData);
                 s = (if resp_status submitResponse then s\<lparr>showSuccessModal := True\<rparr>
                      else if \<not> resp_status submitResponse \<and> resp_statusCode submitResponse = Some 409
                      then s\<lparr>errors := AList.update ''email'' ''This email is already registered''
                                          (errors s),
                             currentStep := 1\<rparr>
                      else s);
                 s = s\<lparr>onLoad := False\<rparr>
             in (s, ev @ [ConsoleLog ''payment Success''] @ ev2 @ [ConsoleLog ''submitResponse''],
                 None))
          else (s, ev, None))"

text \<open>The dismissal handler of the widget (lines 340 to 346).\<close>

definition ondismiss :: "AppState \<Rightarrow> AppState \<times> event list" where
  "ondismiss s = (s\<lparr>onLoad := False\<rparr>, [ConsoleLog ''Payment cancelled by user''])"

text \<open>Lines 286 to 353: the payment branch of the \<open>try\<close> block. The third component is
  \<open>Some finalData\<close> when the widget was opened with handlers closed over \<open>finalData\<close>.\<close>

definition process_payment ::
  "Env \<Rightarrow> AppState \<Rightarrow> FormData \<Rightarrow> AppState \<times> event list \<times> FormData option" where
  "process_payment env s finalData =
     (let razorPayKey = fst (fetchRazorpayKey env);
          ev1 = snd (fetchRazorpayKey env);
          scriptLoaded = fst (loadRazorpayScript env);
          ev2 = snd (loadRazorpayScript env)
      in if \<not> scriptLoaded then
           (s\<lparr>onLoad := False\<rparr>, ev1 @ ev2 @ [Alert ''Error Loading RazorPay Script''], None)
         else if truthy razorPayKey then
           (case createOrder env None of
              (Inl e, ev3) \<Rightarrow> (s, ev1 @ ev2 @ ev3 @ [ConsoleError ''Error submitting form:''], None)
            | (Inr order, ev3) \<Rightarrow>
                (s, ev1 @ ev2 @ ev3 @ [WidgetOpenCall (razorpay_options (case razorPayKey of Some k \<Rightarrow> k | None \<Rightarrow> []) order)],
                 Some finalData))
         else (s, ev1 @ ev2, None))"

text \<open>Lines 355 to 365: payment already completed, the form is submitted directly.\<close>

definition submit_directly ::
  "Env \<Rightarrow> AppState \<Rightarrow> FormData \<Rightarrow> AppState \<times> event list \<times> FormData option" where
  "submit_directly env s finalData =
     (let response = fst (handleFormSubmit env finalData);
          ev = snd (handleFormSubmit env finalData);
          s = (if resp_status response
               then s\<lparr>showSuccessModal := True, paymentCompleted := False\<rparr>
               else if \<not> resp_status response \<and> resp_statusCode response = Some 409
               then s\<lparr>errors := AList.update ''email'' ''This email is already registered''
                                   (errors s),
                      currentStep := 1\<rparr>
               else s)
      in (s, ev @ [ConsoleLog ''response''], None))"

text \<open>\<open>handleSubmit\<close>. The closure reads \<open>formData\<close> and \<open>paymentCompleted\<close> of the
  render it was created in (\<open>s0\<close>); the setters act on the state in sequence. The
  \<open>finally\<close> block resets \<open>onLoad\<close> on every path that entered the \<open>try\<close>.\<close>

definition handleSubmit :: "Env \<Rightarrow> AppState \<Rightarrow> AppState \<times> event list \<times> FormData option" where
  "handleSubmit env s0 =
     (let s = fst (validateAll env s0 0);
          isValid = snd (validateAll env s0 0)
      in if \<not> isValid then (s, [], None)
         else
           (let s = s\<lparr>onLoad := True\<rparr>;
                newPassword = generatePassword env;
                s = s\<lparr>generatedPassword := newPassword\<rparr>;
                finalData = (formData s0)\<lparr>password := newPassword\<rparr>;
                r = (if \<not> paymentCompleted s0
                     then process_payment env s finalData
                     else submit_directly env s finalData)
            in ((fst r)\<lparr>onLoad := False\<rparr>, ConsoleLog ''finalData'' # fst (snd r), snd (snd r))))"

text \<open>How the widget ends once it is open: exactly one of the two handlers fires.\<close>

datatype widget_outcome = Completed RazorpayResponse | Dismissed

text \<open>One press of the submit button followed, when the widget was opened, by the
  widget's callback.\<close>

definition submit_flow :: "Env \<Rightarrow> widget_outcome \<Rightarrow> AppState \<Rightarrow> AppState \<times> event list" where
  "submit_flow env w s0 =
     (case handleSubmit env s0 of
        (s, ev, None) \<Rightarrow> (s, ev)
      | (s, ev, Some finalData) \<Rightarrow>
          (case w of
             Completed response \<Rightarrow>
               (fst (handler finalData env response s), ev @ fst (snd (handler finalData env response s)))
           | Dismissed \<Rightarrow> (fst (ondismiss s), ev @ snd (ondismiss s))))"

text \<open>Classification of the observable calls.\<close>

fun is_gateway_call :: "event \<Rightarrow> bool" where
  "is_gateway_call GetKeyCall = True"
| "is_gateway_call ScriptLoadCall = True"
| "is_gateway_call (MakePaymentCall b) = True"
| "is_gateway_call (WidgetOpenCall c) = True"
| "is_gateway_call (VerifyPaymentsCall p) = True"
| "is_gateway_call e = False"

fun is_commit_call :: "event \<Rightarrow> bool" where
  "is_commit_call (CreateStudentUserCall d) = True"
| "is_commit_call e = False"

fun is_alert :: "event \<Rightarrow> bool" where
  "is_alert (Alert m) = True"
| "is_alert e = False"

section \<open>Sessions of repeated submits\<close>

text \<open>A round is whatever the user does to the form between two submits, followed by one
  press of the submit button in some environment. \<open>paymentCompleted\<close> is written only
  inside \<open>handleSubmit\<close> (lines 316 and 361), so an edit leaves it as it is.\<close>

type_synonym round = "(AppState \<Rightarrow> AppState) \<times> Env \<times> widget_outcome"

fun run_session :: "round list \<Rightarrow> AppState \<Rightarrow> AppState \<times> event list" where
  "run_session [] s = (s, [])"
| "run_session ((edit, env, w) # rs) s =
     (fst (run_session rs (fst (submit_flow env w (edit s)))),
      snd (submit_flow env w (edit s)) @ snd (run_session rs (fst (submit_flow env w (edit s)))))"

text \<open>A round of a retry: the edit keeps the flag, and the commit is not accepted.\<close>

definition retry_round :: "round \<Rightarrow> bool" where
  "retry_round r =
     (case r of (edit, env, w) \<Rightarrow>
        (\<forall>t. paymentCompleted (edit t) = paymentCompleted t)
        \<and> (\<forall>sc. commitResponse env \<noteq> Fulfilled sc))"

fun is_verify_call :: "event \<Rightarrow> bool" where
  "is_verify_call (VerifyPaymentsCall p) = True"
| "is_verify_call e = False"

fun is_order_call :: "event \<Rightarrow> bool" where
  "is_order_call (MakePaymentCall b) = True"
| "is_order_call (WidgetOpenCall c) = True"
| "is_order_call e = False"

section \<open>Notions used to state the properties\<close>

text \<open>The first step, in the order 0 to N-1, whose error map is not empty.\<close>

definition first_invalid :: "Env \<Rightarrow> FormData \<Rightarrow> nat option" where
  "first_invalid env fd = find (\<lambda>i. newErrors env fd i \<noteq> []) [0..<length steps]"

text \<open>The rules of each step, field by field in the order of the form: the name of the
  field and whether its value is acceptable. First name, last name and guardian name
  must not be blank; date of birth, email, grade, guardian email and guardian phone must
  not be empty; the date of birth must pass the age check, the emails and the guardian
  phone their patterns; the applicant's phone is checked only when it is given. The later
  steps have no rule.\<close>

definition field_rules :: "Env \<Rightarrow> FormData \<Rightarrow> nat \<Rightarrow> (string \<times> bool) list" where
  "field_rules env fd step =
     (if step = 0 then
        [(''firstName'', trim (firstName fd) \<noteq> []),
         (''lastName'', trim (lastName fd) \<noteq> []),
         (''dateOfBirth'', dateOfBirth fd \<noteq> [] \<and> validateDateOfBirth env (dateOfBirth fd))]
      else if step = 1 then
        [(''email'', email fd \<noteq> [] \<and> validateEmail (email fd)),
         (''phone'', phone fd = [] \<or> validatePhone (phone fd))]
      else if step = 2 then
        [(''grade'', grade fd \<noteq> [])]
      else if step = 3 then
        [(''parentName'', trim (parentName fd) \<noteq> []),
         (''parentEmail'', parentEmail fd \<noteq> [] \<and> validateEmail (parentEmail fd)),
         (''parentPhone'', parentPhone fd \<noteq> [] \<and> validatePhone (parentPhone fd))]
      else [])"

text \<open>The names of the fields of a step whose value is not acceptable.\<close>

definition invalid_fields :: "Env \<Rightarrow> FormData \<Rightarrow> nat \<Rightarrow> string list" where
  "invalid_fields env fd step = map fst (filter (\<lambda>r. \<not> snd r) (field_rules env fd step))"

text \<open>The outcome of the commit as the orchestrator's two call sites read it (the
  conditions of lines 322 to 324 and 359 to 362).\<close>

datatype SubmissionOutcome = Accepted | DuplicateEmail | TransportFailure

definition classify :: "SubmitResponse option \<Rightarrow> SubmissionOutcome" where
  "classify r =
     (if resp_status r then Accepted
      else if \<not> resp_status r \<and> resp_statusCode r = Some 409 then DuplicateEmail
      else TransportFailure)"

text \<open>Calendar order on the fields of a date, and the same day a number of years back.\<close>

definition earlier :: "JsDate \<Rightarrow> JsDate \<Rightarrow> bool" where
  "earlier a b =
     (fullYear a < fullYear b
      \<or> (fullYear a = fullYear b \<and> (month a < month b \<or> (month a = month b \<and> date a < date b))))"

definition years_before :: "int \<Rightarrow> JsDate \<Rightarrow> JsDate" where
  "years_before n d = d\<lparr>fullYear := fullYear d - n\<rparr>"

section \<open>Example inputs\<close>

text \<open>A clock at 2 November 2026 and the calendar fields of a few dates of birth, as
  \<open>new Date\<close> yields them in a time zone at or east of UTC.\<close>

definition sample_newDate :: "string \<Rightarrow> JsDate option" where
  "sample_newDate dob =
     map_of
       [(''2021-11-02'', \<lparr>fullYear = 2021, month = 10, date = 2\<rparr>),
        (''2021-11-03'', \<lparr>fullYear = 2021, month = 10, date = 3\<rparr>),
        (''2012-03-04'', \<lparr>fullYear = 2012, month = 2, date = 4\<rparr>),
        (''2001-11-02'', \<lparr>fullYear = 2001, month = 10, date = 2\<rparr>),
        (''2001-11-01'', \<lparr>fullYear = 2001, month = 10, date = 1\<rparr>),
        (''2000-11-02'', \<lparr>fullYear = 2000, month = 10, date = 2\<rparr>)] dob"

definition sample_record :: FormData where
  "sample_record =
     \<lparr>firstName = ''Asha'', lastName = ''Rao'', dateOfBirth = ''2012-03-04'', gender = ''f'',
      email = ''a@b.co'', phone = [], address = [], grade = ''5'', previousSchool = [],
      parentName = ''Ravi'', parentEmail = ''r@b.co'', parentPhone = ''123'', relationship = [],
      subjects = [], hobbies = [], goals = [], password = [], course = []\<rparr>"

definition sample_env :: Env where
  "sample_env =
     \<lparr>today = \<lparr>fullYear = 2026, month = 10, date = 2\<rparr>,
      newDate = sample_newDate,
      randomIndex = (\<lambda>i. 7 * i),
      dateNow = 1700,
      keyResponse = Json (Some ''rzp_key''),
      scriptLoaded = True,
      orderResponse =
        Json \<lparr>reply_success = True,
              reply_order = \<lparr>ord_id = ''order_1'', ord_amount = 100, ord_currency = ''INR'',
                              ord_receipt = None\<rparr>,
              reply_message = None\<rparr>,
      verifyResponse =
        Json (Some \<lparr>success = True, message = ''ok'', orderId = None, paymentId = None\<rparr>),
      commitResponse = Fulfilled 201\<rparr>"

definition sample_state :: AppState where
  "sample_state =
     \<lparr>currentStep = 5, showSuccessModal = False, generatedPassword = [], onLoad = False,
      errors = [(''email'', ''This email is already registered'')], touched = [],
      paymentCompleted = False, formData = sample_record\<rparr>"

definition sample_receipt :: RazorpayResponse where
  "sample_receipt =
     \<lparr>razorpay_order_id = ''order_1'', razorpay_payment_id = ''pay_1'',
      razorpay_signature = ''sig_1''\<rparr>"

text \<open>Environments that differ from \<open>sample_env\<close> in one answer.\<close>

definition sample_env_409 :: Env where
  "sample_env_409 = sample_env\<lparr>commitResponse := RejectedAxios (Some 409)\<rparr>"

definition sample_retries :: "round list" where
  "sample_retries =
     [(\<lambda>t. t\<lparr>formData := (formData t)\<lparr>email := ''c@d.co''\<rparr>, currentStep := 5\<rparr>,
       sample_env_409, Dismissed),
      (\<lambda>t. t, sample_env\<lparr>commitResponse := RejectedAxios None\<rparr>, Dismissed)]"

definition sample_env_unverified :: Env where
  "sample_env_unverified =
     sample_env\<lparr>verifyResponse :=
       Json (Some \<lparr>success = False, message = ''Invalid signature'', orderId = None,
                   paymentId = None\<rparr>)\<rparr>"

definition sample_env_nokey :: Env where
  "sample_env_nokey = sample_env\<lparr>keyResponse := Threw ''Failed to fetch''\<rparr>"

definition sample_env_noscript :: Env where
  "sample_env_noscript = sample_env\<lparr>scriptLoaded := False\<rparr>"

section \<open>Properties\<close>

subsection \<open>The validation loop\<close>

lemma validateStep_eq:
  "validateStep env s i =
     (s\<lparr>errors := newErrors env (formData s) i\<rparr>, newErrors env (formData s) i = [])"
  by (simp add: validateStep_def Let_def)

lemma validateAll_from:
  "validateAll env s i =
     (case find (\<lambda>j. newErrors env (formData s) j \<noteq> []) [i..<length steps] of
        None \<Rightarrow> (if i < length steps then s\<lparr>errors := []\<rparr> else s, True)
      | Some k \<Rightarrow> (s\<lparr>errors := newErrors env (formData s) k, currentStep := k\<rparr>, False))"
proof (induction env s i rule: validateAll.induct)
  case (1 env s i)
  show ?case
  proof (cases "i < length steps")
    case False
    then show ?thesis by (simp add: validateAll.simps [of env s i])
  next
    case True
    note lt = this
    have upt: "[i..<length steps] = i # [Suc i..<length steps]"
      using lt by (simp add: upt_conv_Cons)
    show ?thesis
    proof (cases "newErrors env (formData s) i = []")
      case False
      then show ?thesis
        using lt by (simp add: validateAll.simps [of env s i] validateStep_eq upt)
    next
      case True
      have ih: "validateAll env (fst (validateStep env s i)) (i + 1) =
         (case find (\<lambda>j. newErrors env (formData (fst (validateStep env s i))) j \<noteq> [])
                 [i + 1..<length steps] of
            None \<Rightarrow> (if i + 1 < length steps then (fst (validateStep env s i))\<lparr>errors := []\<rparr>
                      else fst (validateStep env s i), True)
          | Some k \<Rightarrow>
              ((fst (validateStep env s i))
                 \<lparr>errors := newErrors env (formData (fst (validateStep env s i))) k,
                  currentStep := k\<rparr>, False))"
        using "1.IH" lt True by (simp add: validateStep_eq)
      show ?thesis
        using lt True ih
        by (simp add: validateAll.simps [of env s i] validateStep_eq upt split: option.splits)
    qed
  qed
qed

lemma validateAll_valid:
  "first_invalid env (formData s) = None \<Longrightarrow> validateAll env s 0 = (s\<lparr>errors := []\<rparr>, True)"
  by (simp add: validateAll_from first_invalid_def steps_def)

lemma validateAll_invalid:
  "first_invalid env (formData s) = Some k \<Longrightarrow>
   validateAll env s 0 = (s\<lparr>errors := newErrors env (formData s) k, currentStep := k\<rparr>, False)"
  by (simp add: validateAll_from first_invalid_def)

lemma find_first:
  "find P xs = Some k \<Longrightarrow> sorted xs \<Longrightarrow> distinct xs \<Longrightarrow>
   k \<in> set xs \<and> P k \<and> (\<forall>j \<in> set xs. j < k \<longrightarrow> \<not> P j)"
  by (induction xs) (auto split: if_splits)

lemma first_invalid_Some:
  "first_invalid env fd = Some k \<Longrightarrow>
   k < length steps \<and> newErrors env fd k \<noteq> [] \<and> (\<forall>j<k. newErrors env fd j = [])"
  unfolding first_invalid_def
  by (drule find_first) auto

lemma first_invalid_exists:
  "i < length steps \<Longrightarrow> newErrors env fd i \<noteq> [] \<Longrightarrow> \<exists>k. first_invalid env fd = Some k"
  unfolding first_invalid_def
  by (cases "find (\<lambda>i. newErrors env fd i \<noteq> []) [0..<length steps]") (auto simp: find_None_iff)

lemma handleSubmit_invalid:
  "first_invalid env (formData s) = Some k \<Longrightarrow>
   handleSubmit env s = (s\<lparr>errors := newErrors env (formData s) k, currentStep := k\<rparr>, [], None)"
  by (simp add: handleSubmit_def validateAll_invalid)

subsection \<open>Step validator\<close>

lemma newErrors_keys_2: "map fst (newErrors env fd 2) = invalid_fields env fd 2"
  by (simp add: newErrors_def invalid_fields_def field_rules_def assign_if_def)

lemma newErrors_keys_late: "4 \<le> step \<Longrightarrow> map fst (newErrors env fd step) = invalid_fields env fd step"
  by (simp add: newErrors_def invalid_fields_def field_rules_def assign_if_def)


lemma newErrors_keys_0: "map fst (newErrors env fd 0) = invalid_fields env fd 0"
  by (cases "trim (firstName fd) = []"; cases "trim (lastName fd) = []";
      cases "dateOfBirth fd = []"; cases "validateDateOfBirth env (dateOfBirth fd)")
     (simp_all add: newErrors_def invalid_fields_def field_rules_def assign_if_def Let_def)

lemma newErrors_keys_1: "map fst (newErrors env fd 1) = invalid_fields env fd 1"
  by (cases "email fd = []"; cases "validateEmail (email fd)";
      cases "phone fd = []"; cases "validatePhone (phone fd)")
     (simp_all add: newErrors_def invalid_fields_def field_rules_def assign_if_def Let_def)

lemma newErrors_keys_3: "map fst (newErrors env fd 3) = invalid_fields env fd 3"
  by (cases "trim (parentName fd) = []"; cases "parentEmail fd = []";
      cases "validateEmail (parentEmail fd)"; cases "parentPhone fd = []";
      cases "validatePhone (parentPhone fd)")
     (simp_all add: newErrors_def invalid_fields_def field_rules_def assign_if_def Let_def)

lemma newErrors_keys:
  "map fst (newErrors env fd step) = invalid_fields env fd step"
proof -
  consider "step = 0" | "step = 1" | "step = 2" | "step = 3" | "4 \<le> step"
    by arith
  then show ?thesis
  proof cases
    case 1
    then show ?thesis by (simp only: newErrors_keys_0)
  next
    case 2
    then show ?thesis by (simp only: newErrors_keys_1)
  next
    case 3
    then show ?thesis by (simp only: newErrors_keys_2)
  next
    case 4
    then show ?thesis by (simp only: newErrors_keys_3)
  next
    case 5
    then show ?thesis by (rule newErrors_keys_late)
  qed
qed

lemma invalid_fields_Nil:
  "(invalid_fields env fd step = []) = list_all snd (field_rules env fd step)"
  by (simp add: invalid_fields_def filter_empty_conv list_all_iff)

text \<open>
  Claim C9. For every step and record, \<open>validateStep\<close> replaces the error map: the
  result is the same whatever the map held before (nothing is merged, stale errors of
  other steps are gone) and no other part of the state changes. The keys of the new map
  are exactly the fields of that step whose value is not acceptable, in the order of the
  form. The call returns success exactly when every rule of the step holds, which is
  exactly when the new map is empty. For the steps without mandatory fields (index 4,
  interests, and index 5, payment plan) the new map is empty and the step passes.
\<close>

theorem validateStep_replaces_errors:
  "validateStep env (s\<lparr>errors := stale\<rparr>) step = validateStep env s step
   \<and> fst (validateStep env s step) = s\<lparr>errors := errors (fst (validateStep env s step))\<rparr>
   \<and> map fst (errors (fst (validateStep env s step))) = invalid_fields env (formData s) step
   \<and> snd (validateStep env s step) = list_all snd (field_rules env (formData s) step)
   \<and> snd (validateStep env s step) = (errors (fst (validateStep env s step)) = [])
   \<and> errors (fst (validateStep env s 4)) = [] \<and> snd (validateStep env s 4)
   \<and> errors (fst (validateStep env s 5)) = [] \<and> snd (validateStep env s 5)"
proof -
  let ?r = "validateStep env s step"
  have replace: "validateStep env (s\<lparr>errors := stale\<rparr>) step = ?r"
    by (simp add: validateStep_def Let_def)
  have frame: "fst ?r = s\<lparr>errors := errors (fst ?r)\<rparr>"
    by (simp add: validateStep_def Let_def)
  have keys: "map fst (errors (fst ?r)) = invalid_fields env (formData s) step"
    by (simp add: validateStep_def Let_def newErrors_keys)
  have "snd ?r = (map fst (newErrors env (formData s) step) = [])"
    by (simp add: validateStep_def Let_def)
  then have ret: "snd ?r = (invalid_fields env (formData s) step = [])"
    by (simp only: newErrors_keys)
  have passes: "snd ?r = list_all snd (field_rules env (formData s) step)"
    using ret by (simp add: invalid_fields_Nil)
  have "(errors (fst ?r) = []) = (map fst (errors (fst ?r)) = [])"
    by simp
  also have "\<dots> = (invalid_fields env (formData s) step = [])"
    by (simp only: keys)
  also have "\<dots> = snd ?r"
    by (simp only: ret)
  finally have empty: "snd ?r = (errors (fst ?r) = [])"
    by simp
  have late: "errors (fst (validateStep env s 4)) = [] \<and> snd (validateStep env s 4)
      \<and> errors (fst (validateStep env s 5)) = [] \<and> snd (validateStep env s 5)"
    by (simp add: validateStep_def Let_def newErrors_def)
  from late have l4: "errors (fst (validateStep env s 4)) = []"
    and p4: "snd (validateStep env s 4)"
    and l5: "errors (fst (validateStep env s 5)) = []"
    and p5: "snd (validateStep env s 5)"
    by simp_all
  show ?thesis
    by (intro conjI) (fact replace frame keys passes empty l4 p4 l5 p5)+
qed

subsection \<open>Submit with an invalid step\<close>

text \<open>
  Claim C4. When some step \<open>i\<close> of the record has a non-empty error map, Submit validates
  the steps in order: there is a first invalid step \<open>k \<le> i\<close> (all steps before it are
  valid), the current step becomes \<open>k\<close> and the error map that of step \<open>k\<close>, and the
  submission ends there with no observable call at all: no payment-gateway operation, no
  commit, no widget.
\<close>

theorem submit_invalid_aborts:
  assumes "i < length steps" and "newErrors env (formData s) i \<noteq> []"
  shows "\<exists>k\<le>i. newErrors env (formData s) k \<noteq> [] \<and> (\<forall>j<k. newErrors env (formData s) j = [])
           \<and> handleSubmit env s =
               (s\<lparr>errors := newErrors env (formData s) k, currentStep := k\<rparr>, [], None)
           \<and> submit_flow env w s =
               (s\<lparr>errors := newErrors env (formData s) k, currentStep := k\<rparr>, [])"
proof -
  obtain k where k: "first_invalid env (formData s) = Some k"
    using first_invalid_exists [OF assms] by blast
  have props: "k < length steps \<and> newErrors env (formData s) k \<noteq> []
                 \<and> (\<forall>j<k. newErrors env (formData s) j = [])"
    using first_invalid_Some [OF k] .
  have "k \<le> i"
  proof (rule ccontr)
    assume "\<not> k \<le> i"
    then have "i < k" by simp
    with props assms(2) show False by blast
  qed
  moreover have "submit_flow env w s =
      (s\<lparr>errors := newErrors env (formData s) k, currentStep := k\<rparr>, [])"
    by (simp add: submit_flow_def handleSubmit_invalid [OF k])
  ultimately show ?thesis
    using props handleSubmit_invalid [OF k] by blast
qed

text \<open>A record whose grade and guardian name are missing: Submit returns to step 2.\<close>

theorem submit_invalid_aborts_witness:
  "handleSubmit sample_env
     (sample_state\<lparr>formData := sample_record\<lparr>grade := [], parentName := []\<rparr>\<rparr>)
     = (sample_state\<lparr>formData := sample_record\<lparr>grade := [], parentName := []\<rparr>,
                     errors := [(''grade'', ''Grade is required'')], currentStep := 2\<rparr>, [], None)"
proof -
  let ?s = "sample_state\<lparr>formData := sample_record\<lparr>grade := [], parentName := []\<rparr>\<rparr>"
  have h1: "(3::nat) < length steps" by (simp add: steps_def)
  have h2: "newErrors sample_env (formData ?s) 3 \<noteq> []" by code_simp
  have e0: "newErrors sample_env (formData ?s) 0 = []" by code_simp
  have e1: "newErrors sample_env (formData ?s) 1 = []" by code_simp
  have e2: "newErrors sample_env (formData ?s) 2 = [(''grade'', ''Grade is required'')]"
    by code_simp
  from submit_invalid_aborts [OF h1 h2, of Dismissed]
  obtain k where k: "k \<le> 3" "newErrors sample_env (formData ?s) k \<noteq> []"
      "\<forall>j<k. newErrors sample_env (formData ?s) j = []"
      "handleSubmit sample_env ?s =
         (?s\<lparr>errors := newErrors sample_env (formData ?s) k, currentStep := k\<rparr>, [], None)"
    by blast
  have n0: "k \<noteq> 0"
  proof
    assume "k = 0"
    with k(2) e0 show False by simp
  qed
  have n1: "k \<noteq> 1"
  proof
    assume "k = 1"
    with k(2) e1 show False by simp
  qed
  have n3: "k \<noteq> 3"
  proof
    assume "k = 3"
    with k(3) have "newErrors sample_env (formData ?s) 2 = []" by simp
    with e2 show False by simp
  qed
  have "k = 2" using k(1) n0 n1 n3 by arith
  then show ?thesis using k(4) e2 by simp
qed

subsection \<open>Submission committer\<close>

text \<open>
  Claim C5. For every record and every way the account-creation call can end,
  \<open>handleFormSubmit\<close> returns (it is a total function: each branch of its
  \<open>try\<close>/\<open>catch\<close> ends normally) and its result classifies the call: a fulfilled
  request (axios fulfils on 2xx) reads as Accepted with \<open>status\<close> true, an
  \<open>AxiosError\<close> whose response status is 409 reads as DuplicateEmail, and every other
  failure reads as TransportFailure.
\<close>

theorem handleFormSubmit_outcome:
  "classify (fst (handleFormSubmit env datas)) =
     (case commitResponse env of
        Fulfilled sc \<Rightarrow> Accepted
      | RejectedAxios sc \<Rightarrow> (if sc = Some 409 then DuplicateEmail else TransportFailure)
      | RejectedError m \<Rightarrow> TransportFailure
      | RejectedOther m \<Rightarrow> TransportFailure)
   \<and> (resp_status (fst (handleFormSubmit env datas)) = (\<exists>sc. commitResponse env = Fulfilled sc))"
  by (cases "commitResponse env")
     (simp_all add: handleFormSubmit_def classify_def resp_status_def resp_statusCode_def)

subsection \<open>Date-of-birth validator\<close>

text \<open>The age is the number of anniversaries of the date of birth reached so far.\<close>

lemma age_on_whole_years:
  "(age_on now b = a) = (\<not> earlier (years_before a now) b \<and> earlier (years_before (a + 1) now) b)"
  by (auto simp add: age_on_def Let_def earlier_def years_before_def)

text \<open>
  Claim C7, as stated, fails at its last boundary: with the clock at 2 November 2026, a
  date of birth that reads as 1 November 2001, one day past 25 years, has the whole-year
  age 25 and passes.
\<close>

theorem validateDateOfBirth_day_past_25_passes:
  "validateDateOfBirth sample_env ''2001-11-01''"
  by code_simp

text \<open>
  Claim C7, amended. The validator computes the age in whole years, with the correction
  for a birthday not yet reached, from the calendar fields that \<open>getFullYear\<close>,
  \<open>getMonth\<close> and \<open>getDate\<close> read from \<open>new Date(dob)\<close> and from the current date, and
  accepts exactly the ages 5 to 25: the age is \<open>a\<close> exactly when the \<open>a\<close>-th anniversary
  of the date of birth is today or past and the next one is still to come. In terms of
  those fields: the date of birth passes
  exactly when it is not later than the day 5 years before today and later than the day
  26 years before today. So the day exactly 5 years ago passes, every later day (one day
  short of 5 years) fails, the day exactly 25 years ago passes, one day past 25 years
  still passes, and the day exactly 26 years ago fails. An unparseable date fails. Which
  fields \<open>new Date\<close> yields for the string typed into the form depends on the time zone
  and is no part of the statement.
\<close>

theorem validateDateOfBirth_range:
  "validateDateOfBirth env dob =
     (case newDate env dob of
        None \<Rightarrow> False
      | Some b \<Rightarrow> \<not> earlier (years_before 5 (today env)) b
                  \<and> earlier (years_before 26 (today env)) b)
   \<and> validateDateOfBirth env dob =
     (case newDate env dob of
        None \<Rightarrow> False
      | Some b \<Rightarrow> 5 \<le> age_on (today env) b \<and> age_on (today env) b \<le> 25)
   \<and> (age_on now b = a) =
       (\<not> earlier (years_before a now) b \<and> earlier (years_before (a + 1) now) b)"
proof -
  have range: "validateDateOfBirth env dob =
     (case newDate env dob of
        None \<Rightarrow> False
      | Some b \<Rightarrow> \<not> earlier (years_before 5 (today env)) b
                  \<and> earlier (years_before 26 (today env)) b)"
    by (auto simp add: validateDateOfBirth_def age_on_def Let_def earlier_def years_before_def
           split: option.splits)
  have ages: "validateDateOfBirth env dob =
     (case newDate env dob of
        None \<Rightarrow> False
      | Some b \<Rightarrow> 5 \<le> age_on (today env) b \<and> age_on (today env) b \<le> 25)"
    by (simp add: validateDateOfBirth_def Let_def split: option.splits)
  show ?thesis
    by (intro conjI) (fact range ages age_on_whole_years)+
qed

subsection \<open>Submitting with and without a completed payment\<close>

lemma handleSubmit_valid:
  "first_invalid env (formData s) = None \<Longrightarrow>
   handleSubmit env s =
     (let s1 = s\<lparr>errors := [], onLoad := True, generatedPassword := generatePassword env\<rparr>;
          finalData = (formData s)\<lparr>password := generatePassword env\<rparr>;
          r = (if \<not> paymentCompleted s then process_payment env s1 finalData
               else submit_directly env s1 finalData)
      in ((fst r)\<lparr>onLoad := False\<rparr>, ConsoleLog ''finalData'' # fst (snd r), snd (snd r)))"
  by (simp add: handleSubmit_def validateAll_valid Let_def)

lemma submit_directly_eq:
  "submit_directly env s fd =
     ((case classify (fst (handleFormSubmit env fd)) of
         Accepted \<Rightarrow> s\<lparr>showSuccessModal := True, paymentCompleted := False\<rparr>
       | DuplicateEmail \<Rightarrow>
           s\<lparr>errors := AList.update ''email'' ''This email is already registered'' (errors s),
             currentStep := 1\<rparr>
       | TransportFailure \<Rightarrow> s),
      snd (handleFormSubmit env fd) @ [ConsoleLog ''response''], None)"
  by (simp add: submit_directly_def classify_def Let_def)

lemma handleFormSubmit_events:
  "filter is_gateway_call (snd (handleFormSubmit env fd)) = []
   \<and> filter is_commit_call (snd (handleFormSubmit env fd)) = [CreateStudentUserCall fd]"
  by (cases "commitResponse env") (simp_all add: handleFormSubmit_def)

lemma handleSubmit_paid_cases:
  "paymentCompleted s \<Longrightarrow>
   snd (snd (handleSubmit env s)) = None
   \<and> filter is_gateway_call (fst (snd (handleSubmit env s))) = []
   \<and> filter is_commit_call (fst (snd (handleSubmit env s))) =
       (if first_invalid env (formData s) = None
        then [CreateStudentUserCall ((formData s)\<lparr>password := generatePassword env\<rparr>)] else [])
   \<and> ((\<forall>sc. commitResponse env \<noteq> Fulfilled sc) \<longrightarrow> paymentCompleted (fst (handleSubmit env s)))"
proof (cases "first_invalid env (formData s)")
  case (Some k)
  assume "paymentCompleted s"
  then show ?thesis using Some by (simp add: handleSubmit_invalid)
next
  case None
  assume p: "paymentCompleted s"
  have c: "(\<forall>sc. commitResponse env \<noteq> Fulfilled sc) \<Longrightarrow>
       classify (fst (handleFormSubmit env fd)) \<noteq> Accepted" for fd
    by (cases "commitResponse env") (simp_all add: handleFormSubmit_def classify_def resp_status_def)
  show ?thesis
    using p None c
    by (auto simp add: handleSubmit_valid submit_directly_eq Let_def handleFormSubmit_events
        split: SubmissionOutcome.splits)
qed

lemma submit_flow_no_widget:
  "snd (snd (handleSubmit env s)) = None \<Longrightarrow>
   submit_flow env w s = (fst (handleSubmit env s), fst (snd (handleSubmit env s)))"
  by (cases "handleSubmit env s") (simp add: submit_flow_def)

lemma run_session_retry:
  "paymentCompleted s \<Longrightarrow> list_all retry_round rs \<Longrightarrow>
   filter is_gateway_call (snd (run_session rs s)) = [] \<and> paymentCompleted (fst (run_session rs s))"
proof (induction rs arbitrary: s)
  case Nil
  then show ?case by simp
next
  case (Cons r rs)
  obtain edit env w where r: "r = (edit, env, w)" by (cases r)
  from Cons.prems have rr: "retry_round r" and rest: "list_all retry_round rs"
    by simp_all
  from rr r Cons.prems(1) have pe: "paymentCompleted (edit s)"
    and nf: "\<forall>sc. commitResponse env \<noteq> Fulfilled sc"
    by (simp_all add: retry_round_def)
  note hs = handleSubmit_paid_cases [OF pe, of env]
  have sf: "submit_flow env w (edit s) = (fst (handleSubmit env (edit s)), fst (snd (handleSubmit env (edit s))))"
    using hs by (simp add: submit_flow_no_widget)
  have p': "paymentCompleted (fst (submit_flow env w (edit s)))"
    using hs nf sf by simp
  have g: "filter is_gateway_call (snd (submit_flow env w (edit s))) = []"
    using hs sf by simp
  from Cons.IH [OF p' rest] g show ?case
    by (simp add: r)
qed

lemma process_payment_eq:
  "process_payment env s fd =
     (if \<not> scriptLoaded env then
        (s\<lparr>onLoad := False\<rparr>,
         snd (fetchRazorpayKey env) @ [ScriptLoadCall] @ [Alert ''Error Loading RazorPay Script''], None)
      else if truthy (fst (fetchRazorpayKey env)) then
        (case createOrder env None of
           (Inl e, ev3) \<Rightarrow>
             (s, snd (fetchRazorpayKey env) @ [ScriptLoadCall] @ ev3 @ [ConsoleError ''Error submitting form:''], None)
         | (Inr order, ev3) \<Rightarrow>
             (s, snd (fetchRazorpayKey env) @ [ScriptLoadCall] @ ev3 @
                 [WidgetOpenCall (razorpay_options (case fst (fetchRazorpayKey env) of Some k \<Rightarrow> k | None \<Rightarrow> []) order)],
              Some fd))
      else (s, snd (fetchRazorpayKey env) @ [ScriptLoadCall], None))"
  by (simp add: process_payment_def loadRazorpayScript_def Let_def)

lemma process_payment_state:
  "(fst (process_payment env s fd))\<lparr>onLoad := False\<rparr> = s\<lparr>onLoad := False\<rparr>"
  by (simp add: process_payment_eq split: prod.splits sum.splits)

lemma process_payment_events_indep:
  "fst (snd (process_payment env s fd)) = fst (snd (process_payment env s' fd'))"
  by (simp add: process_payment_eq split: prod.splits sum.splits)

lemma fetchRazorpayKey_events:
  "snd (fetchRazorpayKey env) = [GetKeyCall] \<or>
   snd (fetchRazorpayKey env) = [GetKeyCall, ConsoleError ''Error fetching Razorpay key:'']"
  by (cases "keyResponse env") (simp_all add: fetchRazorpayKey_def)

lemma createOrder_events:
  "createOrder env a = (r, ev) \<Longrightarrow>
   ev = [MakePaymentCall (order_body env a)] \<or>
   ev = [MakePaymentCall (order_body env a), ConsoleError ''Create order error:'']"
  by (cases "orderResponse env") (auto simp add: createOrder_def split: if_splits)

lemma process_payment_no_verify_commit:
  "filter (\<lambda>e. is_verify_call e \<or> is_commit_call e) (fst (snd (process_payment env s fd))) = []"
  using fetchRazorpayKey_events [of env]
  by (auto simp add: process_payment_eq split: prod.splits sum.splits dest!: createOrder_events)

lemma process_payment_orders:
  "MakePaymentCall b \<in> set (fst (snd (process_payment env s fd))) \<Longrightarrow> b = order_body env None"
  using fetchRazorpayKey_events [of env]
  by (auto simp add: process_payment_eq split: prod.splits sum.splits if_splits dest!: createOrder_events)

lemma process_payment_widgets:
  "WidgetOpenCall c \<in> set (fst (snd (process_payment env s fd))) \<Longrightarrow>
   prefill_name c = ''chiranjeevi'' \<and> prefill_email c = ''test@b2p.com''
   \<and> prefill_contact c = ''1234566778909''"
  using fetchRazorpayKey_events [of env]
  by (auto simp add: process_payment_eq razorpay_options_def
      split: prod.splits sum.splits if_splits dest!: createOrder_events)

lemma handleSubmit_unpaid:
  "first_invalid env (formData s) = None \<Longrightarrow> \<not> paymentCompleted s \<Longrightarrow>
   handleSubmit env s =
     (s\<lparr>errors := [], generatedPassword := generatePassword env, onLoad := False\<rparr>,
      ConsoleLog ''finalData'' #
        fst (snd (process_payment env s ((formData s)\<lparr>password := generatePassword env\<rparr>))),
      snd (snd (process_payment env s ((formData s)\<lparr>password := generatePassword env\<rparr>))))"
proof -
  assume v: "first_invalid env (formData s) = None" and np: "\<not> paymentCompleted s"
  let ?s1 = "s\<lparr>errors := [], onLoad := True, generatedPassword := generatePassword env\<rparr>"
  let ?fd = "(formData s)\<lparr>password := generatePassword env\<rparr>"
  have st: "(fst (process_payment env ?s1 ?fd))\<lparr>onLoad := False\<rparr> =
      s\<lparr>errors := [], generatedPassword := generatePassword env, onLoad := False\<rparr>"
    by (simp add: process_payment_state)
  have ev: "fst (snd (process_payment env ?s1 ?fd)) = fst (snd (process_payment env s ?fd))"
    by (rule process_payment_events_indep)
  have w: "snd (snd (process_payment env ?s1 ?fd)) = snd (snd (process_payment env s ?fd))"
    by (simp add: process_payment_eq split: prod.splits sum.splits)
  show ?thesis
    using v np st ev w by (simp add: handleSubmit_valid Let_def)
qed

lemma widget_opened_unpaid:
  "snd (snd (handleSubmit env s)) \<noteq> None \<Longrightarrow>
   first_invalid env (formData s) = None \<and> \<not> paymentCompleted s"
proof (cases "first_invalid env (formData s)")
  case (Some k)
  assume "snd (snd (handleSubmit env s)) \<noteq> None"
  with Some show ?thesis by (simp add: handleSubmit_invalid)
next
  case None
  assume w: "snd (snd (handleSubmit env s)) \<noteq> None"
  show ?thesis
  proof (cases "paymentCompleted s")
    case True
    with w handleSubmit_paid_cases [OF True, of env] show ?thesis by simp
  next
    case False
    with None show ?thesis by simp
  qed
qed

subsection \<open>Retry after a verified payment\<close>

text \<open>
  Claim C1. In every state in which \<open>paymentCompleted\<close> is true, a Submit makes no
  payment-gateway call (no key fetch, no script load, no order, no widget, no
  verification) and opens no widget; when the record is valid it goes to the commit call,
  exactly once. Over any sequence of retry rounds (edits that leave the flag alone,
  commits that end in a duplicate-email or another failure) the flag stays true and the
  whole session makes no gateway call: the applicant is not charged again.
\<close>

theorem paid_submit_skips_gateway:
  assumes "paymentCompleted s"
  shows "filter is_gateway_call (snd (submit_flow env w s)) = []
         \<and> (first_invalid env (formData s) = None \<longrightarrow>
              filter is_commit_call (snd (submit_flow env w s)) =
                [CreateStudentUserCall ((formData s)\<lparr>password := generatePassword env\<rparr>)])
         \<and> (list_all retry_round rs \<longrightarrow>
              filter is_gateway_call (snd (run_session rs s)) = []
              \<and> paymentCompleted (fst (run_session rs s)))"
proof -
  note hs = handleSubmit_paid_cases [OF assms, of env]
  have sf: "submit_flow env w s = (fst (handleSubmit env s), fst (snd (handleSubmit env s)))"
    using hs by (simp add: submit_flow_no_widget)
  show ?thesis
    using hs sf run_session_retry [OF assms, of rs] by simp
qed

text \<open>Two retries after a verified payment: a duplicate email, then a network error.\<close>

theorem paid_submit_skips_gateway_witness:
  "paymentCompleted (sample_state\<lparr>paymentCompleted := True\<rparr>)
   \<and> filter is_gateway_call
        (snd (submit_flow sample_env_409 Dismissed (sample_state\<lparr>paymentCompleted := True\<rparr>))) = []
   \<and> filter is_commit_call
        (snd (submit_flow sample_env_409 Dismissed (sample_state\<lparr>paymentCompleted := True\<rparr>))) =
        [CreateStudentUserCall (sample_record\<lparr>password := generatePassword sample_env_409\<rparr>)]
   \<and> filter is_gateway_call
        (snd (run_session sample_retries (sample_state\<lparr>paymentCompleted := True\<rparr>))) = []
   \<and> paymentCompleted (fst (run_session sample_retries (sample_state\<lparr>paymentCompleted := True\<rparr>)))"
proof -
  let ?s = "sample_state\<lparr>paymentCompleted := True\<rparr>"
  have h: "paymentCompleted ?s" by simp
  have v: "first_invalid sample_env_409 (formData ?s) = None" by code_simp
  have r: "list_all retry_round sample_retries"
    by (simp add: sample_retries_def retry_round_def sample_env_409_def sample_env_def)
  have f: "formData ?s = sample_record" by (simp add: sample_state_def)
  show ?thesis
    using paid_submit_skips_gateway [OF h, of sample_env_409 Dismissed sample_retries] v r f
    by simp
qed

subsection \<open>Verification result\<close>

text \<open>
  Claim C2 evaluated on the code. The verification endpoint answers
  \<open>{success: false, message: "Invalid signature"}\<close>. The handler tests the object
  itself, which is truthy, so it sets \<open>paymentCompleted\<close>, calls the commit and, the
  commit being accepted, shows the success modal.
\<close>

theorem unverified_payment_is_committed:
  "paymentCompleted (fst (submit_flow sample_env_unverified (Completed sample_receipt) sample_state))
   \<and> showSuccessModal (fst (submit_flow sample_env_unverified (Completed sample_receipt) sample_state))
   \<and> filter is_commit_call
       (snd (submit_flow sample_env_unverified (Completed sample_receipt) sample_state)) =
       [CreateStudentUserCall (sample_record\<lparr>password := generatePassword sample_env_unverified\<rparr>)]"
  by code_simp

subsection \<open>Accepted commit\<close>

text \<open>
  Claim C3 evaluated on the code. On a first attempt (payment made in the widget,
  verification successful, commit accepted) the handler shows the success modal but
  leaves \<open>paymentCompleted\<close> true; only the retry path of lines 359 to 361 resets it.
\<close>

theorem first_attempt_accept_keeps_flag:
  "showSuccessModal (fst (submit_flow sample_env (Completed sample_receipt) sample_state))
   \<and> paymentCompleted (fst (submit_flow sample_env (Completed sample_receipt) sample_state))"
  by code_simp

subsection \<open>Order request and widget configuration\<close>

text \<open>
  Claim C6. For two valid records submitted in the same environment with no payment
  completed, the payment-gateway calls are the same, whatever the records hold. Every
  order request in the trace is \<open>createOrder\<close>'s body for an undefined amount, with the
  constant customer name and email, and every widget configuration carries the constant
  prefill name, email and contact.
\<close>

theorem payment_request_ignores_record:
  assumes "first_invalid env (formData s) = None" and "first_invalid env fd' = None"
    and "\<not> paymentCompleted s"
  shows "filter is_gateway_call (fst (snd (handleSubmit env (s\<lparr>formData := fd'\<rparr>)))) =
           filter is_gateway_call (fst (snd (handleSubmit env s)))
         \<and> (\<forall>b. MakePaymentCall b \<in> set (fst (snd (handleSubmit env s))) \<longrightarrow>
               b = order_body env None \<and> body_amount b = None
               \<and> notes_customer_name b = ''chiranjeevi''
               \<and> notes_customer_email b = ''test@b2p.com'')
         \<and> (\<forall>c. WidgetOpenCall c \<in> set (fst (snd (handleSubmit env s))) \<longrightarrow>
               prefill_name c = ''chiranjeevi'' \<and> prefill_email c = ''test@b2p.com''
               \<and> prefill_contact c = ''1234566778909'')"
proof -
  let ?fd = "(formData s)\<lparr>password := generatePassword env\<rparr>"
  let ?s' = "s\<lparr>formData := fd'\<rparr>"
  have a: "fst (snd (handleSubmit env s)) =
      ConsoleLog ''finalData'' # fst (snd (process_payment env s ?fd))"
    using assms(1,3) by (simp add: handleSubmit_unpaid)
  have v': "first_invalid env (formData ?s') = None" and np': "\<not> paymentCompleted ?s'"
    using assms(2,3) by simp_all
  have b: "fst (snd (handleSubmit env ?s')) =
      ConsoleLog ''finalData'' #
        fst (snd (process_payment env ?s' ((formData ?s')\<lparr>password := generatePassword env\<rparr>)))"
    by (simp only: handleSubmit_unpaid [OF v' np'] fst_conv snd_conv)
  have c: "fst (snd (process_payment env ?s' ((formData ?s')\<lparr>password := generatePassword env\<rparr>))) =
      fst (snd (process_payment env s ?fd))"
    by (rule process_payment_events_indep)
  have first: "filter is_gateway_call (fst (snd (handleSubmit env ?s'))) =
           filter is_gateway_call (fst (snd (handleSubmit env s)))"
    by (simp only: a b c)
  have second: "b = order_body env None \<and> body_amount b = None
               \<and> notes_customer_name b = ''chiranjeevi''
               \<and> notes_customer_email b = ''test@b2p.com''"
    if m: "MakePaymentCall b \<in> set (fst (snd (handleSubmit env s)))" for b
  proof -
    from m have "MakePaymentCall b \<in> set (fst (snd (process_payment env s ?fd)))"
      by (simp add: a)
    then have "b = order_body env None" by (rule process_payment_orders)
    then show ?thesis by (simp add: order_body_def)
  qed
  have third: "prefill_name c = ''chiranjeevi'' \<and> prefill_email c = ''test@b2p.com''
               \<and> prefill_contact c = ''1234566778909''"
    if m: "WidgetOpenCall c \<in> set (fst (snd (handleSubmit env s)))" for c
  proof -
    from m have "WidgetOpenCall c \<in> set (fst (snd (process_payment env s ?fd)))"
      by (simp add: a)
    then show ?thesis by (rule process_payment_widgets)
  qed
  show ?thesis using first second third by blast
qed

theorem payment_request_ignores_record_witness:
  "filter is_gateway_call
     (fst (snd (handleSubmit sample_env
        (sample_state\<lparr>formData := sample_record\<lparr>firstName := ''Bela'', course := ''365 days''\<rparr>\<rparr>)))) =
   filter is_gateway_call (fst (snd (handleSubmit sample_env sample_state)))
   \<and> MakePaymentCall (order_body sample_env None) \<in> set (fst (snd (handleSubmit sample_env sample_state)))
   \<and> body_amount (order_body sample_env None) = None"
proof -
  have v1: "first_invalid sample_env (formData sample_state) = None" by code_simp
  have v2: "first_invalid sample_env (sample_record\<lparr>firstName := ''Bela'', course := ''365 days''\<rparr>) = None"
    by code_simp
  have np: "\<not> paymentCompleted sample_state" by (simp add: sample_state_def)
  note t = payment_request_ignores_record [OF v1 v2 np]
  from t have a: "filter is_gateway_call
     (fst (snd (handleSubmit sample_env
        (sample_state\<lparr>formData := sample_record\<lparr>firstName := ''Bela'', course := ''365 days''\<rparr>\<rparr>)))) =
   filter is_gateway_call (fst (snd (handleSubmit sample_env sample_state)))"
    by (rule conjunct1)
  have ev: "filter is_order_call (fst (snd (handleSubmit sample_env sample_state))) =
      [MakePaymentCall (order_body sample_env None),
       WidgetOpenCall (razorpay_options ''rzp_key''
          \<lparr>ord_id = ''order_1'', ord_amount = 100, ord_currency = ''INR'', ord_receipt = None\<rparr>)]"
    by code_simp
  have "MakePaymentCall (order_body sample_env None) \<in>
      set (filter is_order_call (fst (snd (handleSubmit sample_env sample_state))))"
    by (simp only: ev list.set insertI1)
  then have m: "MakePaymentCall (order_body sample_env None) \<in> set (fst (snd (handleSubmit sample_env sample_state)))"
    by (simp only: set_filter mem_Collect_eq)
  from t m have b: "body_amount (order_body sample_env None) = None" by blast
  from a m b show ?thesis by blast
qed

subsection \<open>Gateway unavailable\<close>

text \<open>
  Claim C8 evaluated on the code. The fetch of the payment key throws and the checkout
  script loads. \<open>fetchRazorpayKey\<close> logs the error and returns \<open>undefined\<close>, the block
  under \<open>if(razorPayKey)\<close> is skipped and has no \<open>else\<close>: the submission ends with no
  alert and no widget, where the script-load failure next to it (lines 289 to 293) alerts.
\<close>

theorem key_fetch_failure_shows_no_alert:
  "fst (fetchRazorpayKey sample_env_nokey) = None
   \<and> filter is_alert (fst (snd (handleSubmit sample_env_nokey sample_state))) = []
   \<and> snd (snd (handleSubmit sample_env_nokey sample_state)) = None"
  by code_simp

text \<open>
  The rest of the behaviour on both failure paths: for a valid record with no payment
  completed, when the key fetch yields no usable key or the script fails to load, the
  submission is aborted, the busy indicator is reset, the step, the flag, the modal and
  the record are as before, and no order is created. Only the script-load failure shows
  an alert.
\<close>

lemma gateway_unavailable_aborts:
  assumes "first_invalid env (formData s) = None" and "\<not> paymentCompleted s"
    and "\<not> truthy (fst (fetchRazorpayKey env)) \<or> \<not> scriptLoaded env"
  shows "handleSubmit env s =
           (s\<lparr>errors := [], generatedPassword := generatePassword env, onLoad := False\<rparr>,
            ConsoleLog ''finalData'' # snd (fetchRazorpayKey env) @ [ScriptLoadCall] @
              (if scriptLoaded env then [] else [Alert ''Error Loading RazorPay Script'']),
            None)
         \<and> filter is_order_call (fst (snd (handleSubmit env s))) = []
         \<and> (\<not> scriptLoaded env \<longrightarrow>
              filter is_alert (fst (snd (handleSubmit env s))) = [Alert ''Error Loading RazorPay Script''])"
proof -
  let ?fd = "(formData s)\<lparr>password := generatePassword env\<rparr>"
  have k: "filter is_order_call (snd (fetchRazorpayKey env)) = []
      \<and> filter is_alert (snd (fetchRazorpayKey env)) = []"
    using fetchRazorpayKey_events [of env] by auto
  have pp: "snd (process_payment env s ?fd) =
      (snd (fetchRazorpayKey env) @ [ScriptLoadCall] @
         (if scriptLoaded env then [] else [Alert ''Error Loading RazorPay Script'']), None)"
    using assms(3) by (cases "scriptLoaded env") (simp_all add: process_payment_eq)
  have hs: "handleSubmit env s =
           (s\<lparr>errors := [], generatedPassword := generatePassword env, onLoad := False\<rparr>,
            ConsoleLog ''finalData'' # snd (fetchRazorpayKey env) @ [ScriptLoadCall] @
              (if scriptLoaded env then [] else [Alert ''Error Loading RazorPay Script'']),
            None)"
    by (simp add: handleSubmit_unpaid [OF assms(1,2)] pp)
  show ?thesis
    by (simp add: hs k)
qed

lemma gateway_unavailable_aborts_example:
  "handleSubmit sample_env_noscript sample_state =
     (sample_state\<lparr>errors := [], generatedPassword := generatePassword sample_env_noscript,
                   onLoad := False\<rparr>,
      [ConsoleLog ''finalData'', GetKeyCall, ScriptLoadCall, Alert ''Error Loading RazorPay Script''],
      None)"
proof -
  have v: "first_invalid sample_env_noscript (formData sample_state) = None" by code_simp
  have np: "\<not> paymentCompleted sample_state" by (simp add: sample_state_def)
  have f: "\<not> truthy (fst (fetchRazorpayKey sample_env_noscript)) \<or> \<not> scriptLoaded sample_env_noscript"
    by (simp add: sample_env_noscript_def)
  have e: "snd (fetchRazorpayKey sample_env_noscript) = [GetKeyCall]"
    by (simp add: fetchRazorpayKey_def sample_env_noscript_def sample_env_def)
  have l: "\<not> scriptLoaded sample_env_noscript" by (simp add: sample_env_noscript_def)
  show ?thesis
    using gateway_unavailable_aborts [OF v np f] e l by simp
qed

subsection \<open>Dismissal of the widget\<close>

text \<open>
  Claim C10. The dismissal handler changes nothing but \<open>onLoad\<close>, which it sets to
  false. Whenever Submit has opened the widget and the user dismisses it,
  \<open>paymentCompleted\<close> is false, the busy indicator is false, the current step is the one
  Submit was pressed on, and the trace holds no verification and no commit call.
\<close>

theorem dismiss_clears_only_busy:
  assumes "snd (snd (handleSubmit env s)) \<noteq> None"
  shows "ondismiss t = (t\<lparr>onLoad := False\<rparr>, [ConsoleLog ''Payment cancelled by user''])
         \<and> fst (submit_flow env Dismissed s) = (fst (handleSubmit env s))\<lparr>onLoad := False\<rparr>
         \<and> \<not> paymentCompleted (fst (submit_flow env Dismissed s))
         \<and> \<not> onLoad (fst (submit_flow env Dismissed s))
         \<and> currentStep (fst (submit_flow env Dismissed s)) = currentStep s
         \<and> filter (\<lambda>e. is_verify_call e \<or> is_commit_call e) (snd (submit_flow env Dismissed s)) = []"
proof -
  from widget_opened_unpaid [OF assms]
  have v: "first_invalid env (formData s) = None" and np: "\<not> paymentCompleted s" by simp_all
  let ?fd = "(formData s)\<lparr>password := generatePassword env\<rparr>"
  let ?s1 = "s\<lparr>errors := [], generatedPassword := generatePassword env, onLoad := False\<rparr>"
  let ?ev = "ConsoleLog ''finalData'' # fst (snd (process_payment env s ?fd))"
  note hs = handleSubmit_unpaid [OF v np]
  obtain fd where fd: "snd (snd (process_payment env s ?fd)) = Some fd"
    using assms by (auto simp add: hs)
  have hs': "handleSubmit env s = (?s1, ?ev, Some fd)"
    by (simp add: hs fd)
  have sf: "submit_flow env Dismissed s =
      (?s1\<lparr>onLoad := False\<rparr>, ?ev @ [ConsoleLog ''Payment cancelled by user''])"
    by (simp add: submit_flow_def hs' ondismiss_def)
  have nv: "filter (\<lambda>e. is_verify_call e \<or> is_commit_call e) ?ev = []"
    using process_payment_no_verify_commit [of env s ?fd] by simp
  show ?thesis
    using np nv by (simp add: sf hs' ondismiss_def)
qed

theorem dismiss_clears_only_busy_witness:
  "snd (snd (handleSubmit sample_env sample_state)) \<noteq> None
   \<and> \<not> paymentCompleted (fst (submit_flow sample_env Dismissed sample_state))
   \<and> \<not> onLoad (fst (submit_flow sample_env Dismissed sample_state))
   \<and> currentStep (fst (submit_flow sample_env Dismissed sample_state)) = 5
   \<and> filter (\<lambda>e. is_verify_call e \<or> is_commit_call e)
       (snd (submit_flow sample_env Dismissed sample_state)) = []"
proof -
  have h: "snd (snd (handleSubmit sample_env sample_state)) \<noteq> None" by code_simp
  have c: "currentStep sample_state = 5" by (simp add: sample_state_def)
  note d = dismiss_clears_only_busy [OF h, of sample_state]
  from d have "currentStep (fst (submit_flow sample_env Dismissed sample_state)) = currentStep sample_state"
    by blast
  with c have c': "currentStep (fst (submit_flow sample_env Dismissed sample_state)) = 5" by simp
  from d h c' show ?thesis by blast
qed

end
